theory Spec2Isabelle
  imports Complex_Main
begin

section \<open>Values shared by both components\<close>

text \<open>
  A JavaScript exception is a value. \<open>Error msg\<close> is \<^verbatim>\<open>new Error(msg)\<close>;
  \<open>TypeError\<close> is what the runtime raises on a member access through
  \<^verbatim>\<open>null\<close> or \<^verbatim>\<open>undefined\<close>. A function that can throw returns
  \<open>error + 'a\<close> together with the state it leaves behind, so that whatever was
  assigned before the \<^verbatim>\<open>throw\<close> stays visible.
  Calls to \<^verbatim>\<open>console\<close> write to no field of either component and are left out.
\<close>

datatype error = Error string | TypeError

text \<open>
  A promise that has settled. The model runs every asynchronous operation to its
  settlement in one step; interleavings of separate update ticks are not modelled.
\<close>

datatype promise = Resolved | Rejected error

text \<open>
  JavaScript numbers occur only as data that is copied around (bounding boxes,
  transforms, vectors); no arithmetic of the program is modelled on them.
\<close>

datatype number = Finite real | PosInfinity | NegInfinity

type_synonym Vector3 = "number \<times> number \<times> number"

record Box3 =
  box_min :: Vector3
  box_max :: Vector3

text \<open>\<^verbatim>\<open>new THREE.Box3()\<close>: the empty box of the rendering library.\<close>

definition new_Box3 :: Box3 where
  "new_Box3 =
     \<lparr>box_min = (PosInfinity, PosInfinity, PosInfinity),
      box_max = (NegInfinity, NegInfinity, NegInfinity)\<rparr>"

subsection \<open>Array helpers of the language\<close>

text \<open>
  \<^verbatim>\<open>Array.prototype.indexOf\<close>: the index of the first element strictly equal to
  the argument, \<open>-1\<close> when there is none.
\<close>

primrec indexOf_from :: "'a list \<Rightarrow> 'a \<Rightarrow> int \<Rightarrow> int" where
  "indexOf_from [] x i = - 1"
| "indexOf_from (y # ys) x i = (if y = x then i else indexOf_from ys x (i + 1))"

definition indexOf :: "'a list \<Rightarrow> 'a \<Rightarrow> int" where
  "indexOf xs x = indexOf_from xs x 0"

text \<open>
  \<^verbatim>\<open>Array.prototype.splice(start, deleteCount)\<close> without inserted items: a negative
  \<open>start\<close> counts from the end and is clamped at 0, a positive one is clamped at the
  length; the delete count is clamped to what is left.
\<close>

definition splice :: "'a list \<Rightarrow> int \<Rightarrow> int \<Rightarrow> 'a list" where
  "splice xs start deleteCount =
     (let len = int (length xs);
          actualStart = (if start < 0 then max (len + start) 0 else min start len);
          actualDeleteCount = min (max deleteCount 0) (len - actualStart)
      in take (nat actualStart) xs @ drop (nat (actualStart + actualDeleteCount)) xs)"

section \<open>The Model component (explorer/components/Model.ts)\<close>

subsection \<open>Derivatives\<close>

text \<open>
  Modelled from the spec: the enumerations \<^verbatim>\<open>EDerivativeQuality\<close> and
  \<^verbatim>\<open>EDerivativeUsage\<close> are declared in \<^verbatim>\<open>../models/Derivative\<close>, which is not
  among the sources. The five quality members are the ones \<^verbatim>\<open>_qualityLevels\<close>
  names, \<open>Web\<close> is the usage the source names; \<open>OtherQuality\<close> and
  \<open>OtherUsage\<close> stand for any further member of the enumerations.
\<close>

datatype EDerivativeQuality = Thumb | Low | Medium | High | Highest | OtherQuality nat

datatype EDerivativeUsage = Web | OtherUsage nat

datatype EAssetType = AssetModel | AssetGeometry | AssetImage

datatype EMapType = MapColor

record Asset =
  uri :: string
  assetType :: EAssetType
  mapType :: "EMapType option"

type_synonym object3d_ref = nat
type_synonym derivative_ref = nat
type_synonym LoadingManager = nat

text \<open>
  A derivative object. \<open>model\<close> and \<open>dBoundingBox\<close> are the fields
  \<^verbatim>\<open>derivative.model\<close> and \<^verbatim>\<open>derivative.boundingBox\<close>, which are set when
  the derivative has been loaded.
\<close>

record Derivative =
  usage :: EDerivativeUsage
  quality :: EDerivativeQuality
  assets :: "Asset list"
  model :: "object3d_ref option"
  dBoundingBox :: "Box3 option"

text \<open>\<^verbatim>\<open>new Derivative(usage, quality, assets)\<close>: nothing is loaded yet.\<close>

definition new_Derivative ::
  "EDerivativeUsage \<Rightarrow> EDerivativeQuality \<Rightarrow> Asset list \<Rightarrow> Derivative" where
  "new_Derivative u q as =
     \<lparr>usage = u, quality = q, assets = as, model = None, dBoundingBox = None\<rparr>"

definition qualityLevels :: "EDerivativeQuality list" where
  "qualityLevels = [Thumb, Low, Medium, High, Highest]"

subsection \<open>State\<close>

text \<open>
  Calls into collaborators that are not part of the component (the derivative's own
  methods, the scene-graph base class, the event emitter) are recorded in a trace, in
  the order in which they are made.
\<close>

datatype event =
    DerivativeDispose derivative_ref
  | DerivativeLoad derivative_ref LoadingManager string
  | AddChild "object3d_ref option"
  | RemoveChild "object3d_ref option"
  | GeometryDispose object3d_ref
  | Emit string
  | SuperDispose

text \<open>
  The fields of a \<^verbatim>\<open>Model\<close> instance. \<open>derivatives\<close> holds references to
  derivative objects (the declared element type is \<^verbatim>\<open>Derivative\<close>); the objects
  themselves live in the heap of the surrounding state, so that the list and
  \<open>activeDerivative\<close> can refer to the same object.
\<close>

record Model =
  ins_position :: Vector3
  ins_position_changed :: bool
  ins_rotation :: Vector3
  ins_rotation_changed :: bool
  units :: string
  boundingBox :: "Box3 option"
  boxFrame :: "object3d_ref option"
  derivatives :: "derivative_ref list"
  activeDerivative :: "derivative_ref option"
  loadingManager :: "LoadingManager option"
  assetPath :: string
  matrix :: "number list"
  matrixWorldNeedsUpdate :: bool

record state =
  this :: Model
  heap :: "derivative_ref \<Rightarrow> Derivative"
  nextDerivative :: derivative_ref
  nextObject :: object3d_ref
  trace :: "event list"

definition updateEvent :: string where
  "updateEvent = ''update''"

subsection \<open>findDerivative and selectDerivative\<close>

text \<open>
  The loop of \<^verbatim>\<open>findDerivative\<close> over \<^verbatim>\<open>this.derivatives\<close>, front to back. Every
  entry of the list is an object, so the guard \<^verbatim>\<open>derivative &&\<close> is true at each.
\<close>

fun findDerivative_loop ::
  "(derivative_ref \<Rightarrow> Derivative) \<Rightarrow> derivative_ref list \<Rightarrow> EDerivativeQuality \<Rightarrow>
   EDerivativeUsage \<Rightarrow> derivative_ref option" where
  "findDerivative_loop h [] q u = None"
| "findDerivative_loop h (d # ds) q u =
     (if usage (h d) = u \<and> quality (h d) = q then Some d
      else findDerivative_loop h ds q u)"

definition findDerivative ::
  "state \<Rightarrow> EDerivativeQuality \<Rightarrow> EDerivativeUsage option \<Rightarrow> derivative_ref option" where
  "findDerivative s q usage_arg =
     (let u = (case usage_arg of Some u' \<Rightarrow> u' | None \<Rightarrow> Web)
      in findDerivative_loop (heap s) (derivatives (this s)) q u)"

text \<open>
  The first loop of \<^verbatim>\<open>selectDerivative\<close>: \<open>i\<close> counts up to the last level.
  (The message of the error that \<^verbatim>\<open>selectDerivative\<close> throws ends with the name
  of the quality in the source; the model keeps the fixed part.)
\<close>

function higher_loop ::
  "state \<Rightarrow> EDerivativeUsage \<Rightarrow> nat \<Rightarrow> derivative_ref option" where
  "higher_loop s u i =
     (if i < length qualityLevels then
        (case findDerivative s (qualityLevels ! i) (Some u) of
           Some d \<Rightarrow> Some d
         | None \<Rightarrow> higher_loop s u (i + 1))
      else None)"
  by pat_completeness auto
termination
  by (relation "measure (\<lambda>(s, u, i). length qualityLevels - i)") auto

text \<open>The second loop: \<open>i\<close> counts down and the loop ends below 0.\<close>

function lower_loop ::
  "state \<Rightarrow> EDerivativeUsage \<Rightarrow> int \<Rightarrow> derivative_ref option" where
  "lower_loop s u i =
     (if i \<ge> 0 then
        (case findDerivative s (qualityLevels ! nat i) (Some u) of
           Some d \<Rightarrow> Some d
         | None \<Rightarrow> lower_loop s u (i - 1))
      else None)"
  by pat_completeness auto
termination
  by (relation "measure (\<lambda>(s, u, i). nat (i + 1))") auto

declare higher_loop.simps [simp del]
declare lower_loop.simps [simp del]

definition selectDerivative ::
  "state \<Rightarrow> EDerivativeQuality \<Rightarrow> EDerivativeUsage option \<Rightarrow>
   error + derivative_ref option" where
  "selectDerivative s q usage_arg =
     (let u = (case usage_arg of Some u' \<Rightarrow> u' | None \<Rightarrow> Web);
          qualityIndex = indexOf qualityLevels q
      in if qualityIndex < 0 then Inl (Error ''derivative quality not supported'')
         else
           (case findDerivative s q (Some u) of
              Some d \<Rightarrow> Inr (Some d)
            | None \<Rightarrow>
                (case higher_loop s u (nat (qualityIndex + 1)) of
                   Some d \<Rightarrow> Inr (Some d)
                 | None \<Rightarrow>
                     (case lower_loop s u (qualityIndex - 1) of
                        Some d \<Rightarrow> Inr (Some d)
                      | None \<Rightarrow> Inr None))))"

subsection \<open>Collaborators that are not among the sources\<close>

text \<open>
  Modelled from the spec: \<^verbatim>\<open>Derivative.load\<close> and \<^verbatim>\<open>Derivative.dispose\<close> live in
  \<^verbatim>\<open>../models/Derivative\<close>, the matrix decomposition in the rendering library. Of
  the load the spec says that it "resolves to a loaded visual representation plus
  bounding box; may fail per-asset (propagated as a rejected load)"; of the disposal
  that it releases the derivative's rendering resources. Both are parameters: the load
  returns the derivative object as it is once the promise has resolved, or the reason of
  the rejection; the disposal returns the derivative object as it leaves it;
  \<open>matrixToProps\<close> is the position and the rotation (in degrees, order ZYX) that
  \<^verbatim>\<open>updatePropsFromMatrix\<close> computes from the matrix.
\<close>

record env =
  Derivative_load :: "derivative_ref \<Rightarrow> Derivative \<Rightarrow> LoadingManager \<Rightarrow> string \<Rightarrow> error + Derivative"
  Derivative_dispose :: "Derivative \<Rightarrow> Derivative"
  matrixToProps :: "number list \<Rightarrow> Vector3 \<times> Vector3"

subsection \<open>Construction\<close>

definition identityMatrix :: "number list" where
  "identityMatrix =
     map Finite [1, 0, 0, 0,  0, 1, 0, 0,  0, 0, 1, 0,  0, 0, 0, 1]"

definition zeroVector :: Vector3 where
  "zeroVector = (Finite 0, Finite 0, Finite 0)"

text \<open>
  The field initialisers of the class and \<^verbatim>\<open>create()\<close>. The ports
  \<^verbatim>\<open>quality\<close>, \<^verbatim>\<open>autoLoad\<close>, \<^verbatim>\<open>asc\<close> and \<^verbatim>\<open>aof\<close> are read only by
  \<^verbatim>\<open>update()\<close> or by nothing and are not part of the model.
\<close>

definition new_Model :: Model where
  "new_Model =
     \<lparr>ins_position = zeroVector, ins_position_changed = False,
      ins_rotation = zeroVector, ins_rotation_changed = False,
      units = ''cm'',
      boundingBox = Some new_Box3,
      boxFrame = None,
      derivatives = [],
      activeDerivative = None,
      loadingManager = None,
      assetPath = [],
      matrix = identityMatrix,
      matrixWorldNeedsUpdate = False\<rparr>"

subsection \<open>The methods that change the state\<close>

definition emit :: "state \<Rightarrow> event \<Rightarrow> state" where
  "emit s e = s\<lparr>trace := trace s @ [e]\<rparr>"

text \<open>A call of \<^verbatim>\<open>derivative.dispose()\<close> on the object behind a reference.\<close>

definition call_Derivative_dispose :: "env \<Rightarrow> state \<Rightarrow> derivative_ref \<Rightarrow> state" where
  "call_Derivative_dispose E s d =
     emit (s\<lparr>heap := (heap s)(d := Derivative_dispose E (heap s d))\<rparr>) (DerivativeDispose d)"

definition dispose :: "env \<Rightarrow> state \<Rightarrow> state" where
  "dispose E s =
     (let s1 = foldl (call_Derivative_dispose E) s (derivatives (this s));
          s2 = s1\<lparr>this := (this s1)\<lparr>activeDerivative := None\<rparr>\<rparr>
      in emit s2 SuperDispose)"

definition updatePropsFromMatrix :: "env \<Rightarrow> state \<Rightarrow> state" where
  "updatePropsFromMatrix E s =
     (let (p, r) = matrixToProps E (matrix (this s))
      in s\<lparr>this := (this s)\<lparr>ins_position := p, ins_rotation := r,
                              ins_position_changed := True, ins_rotation_changed := True\<rparr>\<rparr>)"

definition addDerivative :: "state \<Rightarrow> derivative_ref \<Rightarrow> state" where
  "addDerivative s d = s\<lparr>this := (this s)\<lparr>derivatives := derivatives (this s) @ [d]\<rparr>\<rparr>"

definition removeDerivative :: "state \<Rightarrow> derivative_ref \<Rightarrow> state" where
  "removeDerivative s d =
     (let index = indexOf (derivatives (this s)) d
      in s\<lparr>this := (this s)\<lparr>derivatives := splice (derivatives (this s)) index 1\<rparr>\<rparr>)"

definition setLoadingManager :: "state \<Rightarrow> LoadingManager option \<Rightarrow> state" where
  "setLoadingManager s lm = s\<lparr>this := (this s)\<lparr>loadingManager := lm\<rparr>\<rparr>"

definition setPath :: "state \<Rightarrow> string \<Rightarrow> state" where
  "setPath s p = s\<lparr>this := (this s)\<lparr>assetPath := p\<rparr>\<rparr>"

subsection \<open>fromData\<close>

text \<open>
  The plain data a model is inflated from (\<^verbatim>\<open>IModel\<close>). Usage and quality are
  string literals of the enumerations' member names there; the model holds the members.
\<close>

record IDerivative =
  iUsage :: EDerivativeUsage
  iQuality :: EDerivativeQuality
  iAssets :: "Asset list"

record IModel =
  iUnits :: string
  iDerivatives :: "IDerivative list"
  iTransform :: "number list option"
  iBoundingBox :: "(Vector3 \<times> Vector3) option"

text \<open>
  One round of the \<^verbatim>\<open>forEach\<close> in \<^verbatim>\<open>fromData\<close>: a new derivative object is
  allocated and added to the list.
\<close>

definition inflateDerivative :: "state \<Rightarrow> IDerivative \<Rightarrow> state" where
  "inflateDerivative s dd =
     (let r = nextDerivative s;
          s1 = s\<lparr>heap := (heap s)(r := new_Derivative (iUsage dd) (iQuality dd) (iAssets dd)),
                 nextDerivative := r + 1\<rparr>
      in addDerivative s1 r)"

definition fromData :: "env \<Rightarrow> state \<Rightarrow> IModel \<Rightarrow> (error + unit) \<times> state" where
  "fromData E s modelData =
     (let s1 = s\<lparr>this := (this s)\<lparr>units := iUnits modelData\<rparr>\<rparr>
      in if length (derivatives (this s1)) > 0 then
           (Inl (Error ''existing derivatives; failed to inflate from modelData''), s1)
         else
           (let s2 = foldl inflateDerivative s1 (iDerivatives modelData);
                s3 = (case iTransform modelData of
                        None \<Rightarrow> s2
                      | Some t \<Rightarrow>
                          updatePropsFromMatrix E
                            (s2\<lparr>this := (this s2)\<lparr>matrix := take 16 t,
                                                     matrixWorldNeedsUpdate := True\<rparr>\<rparr>))
            in case iBoundingBox modelData of
                 None \<Rightarrow> (Inr (), s3)
               | Some (bmin, bmax) \<Rightarrow>
                   (case boundingBox (this s3) of
                      None \<Rightarrow> (Inl TypeError, s3)
                    | Some b \<Rightarrow>
                        (let frame = nextObject s3;
                             s4 = s3\<lparr>this := (this s3)
                                      \<lparr>boundingBox := Some (b\<lparr>box_min := bmin, box_max := bmax\<rparr>),
                                       boxFrame := Some frame\<rparr>,
                                    nextObject := frame + 1\<rparr>;
                             s5 = emit s4 (AddChild (Some frame))
                         in (Inr (), emit s5 (Emit updateEvent))))))"

subsection \<open>Loading\<close>

text \<open>
  The callback that \<^verbatim>\<open>loadDerivative\<close> passes to \<^verbatim>\<open>then\<close>, run once the load
  of \<open>d\<close> has resolved. The last three lines of the source read the bounding box of
  the derivative for a log message, which raises when there is none.
\<close>

definition loadDerivative_then :: "env \<Rightarrow> state \<Rightarrow> derivative_ref \<Rightarrow> promise \<times> state" where
  "loadDerivative_then E s d =
     (case model (heap s d) of
        None \<Rightarrow> (Resolved, s)
      | Some _ \<Rightarrow>
          (let s1 = (case boxFrame (this s) of
                       None \<Rightarrow> s
                     | Some frame \<Rightarrow>
                         emit (emit s (RemoveChild (Some frame))) (GeometryDispose frame));
               s2 = (case activeDerivative (this s1) of
                       None \<Rightarrow> s1
                     | Some a \<Rightarrow>
                         call_Derivative_dispose E
                           (emit s1 (RemoveChild (model (heap s1 a)))) a);
               s3 = (if boundingBox (this s2) = None \<and> dBoundingBox (heap s2 d) \<noteq> None
                     then s2\<lparr>this := (this s2)\<lparr>boundingBox := dBoundingBox (heap s2 d)\<rparr>\<rparr>
                     else s2);
               s4 = s3\<lparr>this := (this s3)\<lparr>activeDerivative := Some d\<rparr>\<rparr>;
               s5 = emit s4 (AddChild (model (heap s4 d)));
               s6 = emit s5 (Emit updateEvent)
           in case dBoundingBox (heap s6 d) of
                None \<Rightarrow> (Rejected TypeError, s6)
              | Some bb \<Rightarrow> (Resolved, s6)))"

text \<open>
  \<^verbatim>\<open>loadDerivative\<close> throws when no loading manager is set; otherwise it returns
  the promise of the load chained with the callback. A rejected load skips the callback.
\<close>

definition loadDerivative ::
  "env \<Rightarrow> state \<Rightarrow> derivative_ref \<Rightarrow> (error + promise) \<times> state" where
  "loadDerivative E s d =
     (case loadingManager (this s) of
        None \<Rightarrow> (Inl (Error ''can't load derivative, loading manager not set''), s)
      | Some lm \<Rightarrow>
          (let s1 = emit s (DerivativeLoad d lm (assetPath (this s)))
           in case Derivative_load E d (heap s1 d) lm (assetPath (this s1)) of
                Inl e \<Rightarrow> (Inr (Rejected e), s1)
              | Inr d' \<Rightarrow>
                  (let (p, s2) = loadDerivative_then E (s1\<lparr>heap := (heap s1)(d := d')\<rparr>) d
                   in (Inr p, s2))))"

text \<open>
  \<^verbatim>\<open>promise.then(f)\<close> on a settled promise: a rejection passes through and \<open>f\<close>
  does not run; otherwise the result is what \<open>f\<close> returns, a throw in \<open>f\<close> being
  a rejection.
\<close>

definition promise_then ::
  "promise \<times> state \<Rightarrow> (state \<Rightarrow> (error + promise) \<times> state) \<Rightarrow> promise \<times> state" where
  "promise_then ps f =
     (case ps of
        (Rejected e, s) \<Rightarrow> (Rejected e, s)
      | (Resolved, s) \<Rightarrow>
          (case f s of
             (Inl e, s') \<Rightarrow> (Rejected e, s')
           | (Inr p, s') \<Rightarrow> (p, s')))"

text \<open>Lines 252 to 262 of \<^verbatim>\<open>autoLoad\<close>: the sequence of derivatives to load.\<close>

definition autoLoad_sequence ::
  "state \<Rightarrow> EDerivativeQuality \<Rightarrow> error + derivative_ref list" where
  "autoLoad_sequence s q =
     (let thumb = findDerivative s Thumb None;
          sequence1 = (case thumb of Some t \<Rightarrow> [t] | None \<Rightarrow> [])
      in case selectDerivative s q None of
           Inl e \<Rightarrow> Inl e
         | Inr second \<Rightarrow>
             Inr (case second of Some d \<Rightarrow> sequence1 @ [d] | None \<Rightarrow> sequence1))"

text \<open>
  The rest of \<^verbatim>\<open>autoLoad\<close>: the rejection for an empty sequence, and the
  \<^verbatim>\<open>reduce\<close> that chains one load after the other, starting from a resolved promise.
\<close>

definition autoLoad ::
  "env \<Rightarrow> state \<Rightarrow> EDerivativeQuality \<Rightarrow> (error + promise) \<times> state" where
  "autoLoad E s q =
     (case autoLoad_sequence s q of
        Inl e \<Rightarrow> (Inl e, s)
      | Inr sequence \<Rightarrow>
          if length sequence = 0 then
            (Inr (Rejected (Error ''no suitable web-derivatives available'')), s)
          else
            (let (p, s') =
                   foldl (\<lambda>promise derivative.
                            promise_then promise (\<lambda>s. loadDerivative E s derivative))
                     (Resolved, s) sequence
             in (Inr p, s')))"

subsection \<open>The selection rule in the words of the specification\<close>

text \<open>
  This definition follows the specification, not the source; the source's
  \<open>selectDerivative\<close> is compared with it below. A derivative matches when its
  quality and its usage are the requested ones. The levels strictly above a level are
  listed in ascending order, the levels strictly below it in descending order.
\<close>

definition matches ::
  "(derivative_ref \<Rightarrow> Derivative) \<Rightarrow> EDerivativeQuality \<Rightarrow> EDerivativeUsage \<Rightarrow>
   derivative_ref \<Rightarrow> bool" where
  "matches h q u d \<longleftrightarrow> quality (h d) = q \<and> usage (h d) = u"

fun higherAscending :: "EDerivativeQuality \<Rightarrow> EDerivativeQuality list" where
  "higherAscending Thumb = [Low, Medium, High, Highest]"
| "higherAscending Low = [Medium, High, Highest]"
| "higherAscending Medium = [High, Highest]"
| "higherAscending High = [Highest]"
| "higherAscending Highest = []"
| "higherAscending (OtherQuality n) = []"

fun lowerDescending :: "EDerivativeQuality \<Rightarrow> EDerivativeQuality list" where
  "lowerDescending Thumb = []"
| "lowerDescending Low = [Thumb]"
| "lowerDescending Medium = [Low, Thumb]"
| "lowerDescending High = [Medium, Low, Thumb]"
| "lowerDescending Highest = [High, Medium, Low, Thumb]"
| "lowerDescending (OtherQuality n) = []"

text \<open>The first derivative found while scanning the given levels in the given order.\<close>

fun firstFound ::
  "(derivative_ref \<Rightarrow> Derivative) \<Rightarrow> derivative_ref list \<Rightarrow> EDerivativeUsage \<Rightarrow>
   EDerivativeQuality list \<Rightarrow> derivative_ref option" where
  "firstFound h ds u [] = None"
| "firstFound h ds u (q # qs) =
     (case find (matches h q u) ds of
        Some d \<Rightarrow> Some d
      | None \<Rightarrow> firstFound h ds u qs)"

definition selectDerivative_spec ::
  "state \<Rightarrow> EDerivativeQuality \<Rightarrow> EDerivativeUsage \<Rightarrow> derivative_ref option" where
  "selectDerivative_spec s q u =
     (let h = heap s; ds = derivatives (this s) in
      case find (matches h q u) ds of
        Some d \<Rightarrow> Some d
      | None \<Rightarrow>
          (case firstFound h ds u (higherAscending q) of
             Some d \<Rightarrow> Some d
           | None \<Rightarrow> firstFound h ds u (lowerDescending q)))"

subsection \<open>Sequential loading in the words of the specification\<close>

text \<open>
  These definitions follow the specification, not the source. \<open>isLoad\<close> tells the
  loads among the recorded calls. \<open>loadInOrder\<close> loads a sequence "sequentially,
  each load fully resolved before the next begins": the next load starts in the state
  in which the previous one has resolved, and after a failure no further load starts.
\<close>

fun isLoad :: "event \<Rightarrow> bool" where
  "isLoad (DerivativeLoad d lm p) = True"
| "isLoad e = False"

fun loadInOrder :: "env \<Rightarrow> state \<Rightarrow> derivative_ref list \<Rightarrow> promise \<times> state" where
  "loadInOrder E s [] = (Resolved, s)"
| "loadInOrder E s (d # ds) =
     (case loadDerivative E s d of
        (Inl e, s1) \<Rightarrow> (Rejected e, s1)
      | (Inr (Rejected e), s1) \<Rightarrow> (Rejected e, s1)
      | (Inr Resolved, s1) \<Rightarrow> loadInOrder E s1 ds)"

section \<open>The document component (CVDocument)\<close>

subsection \<open>Document data\<close>

text \<open>
  The part of \<^verbatim>\<open>IDocument\<close> that the component itself reads and writes: the asset
  block, the index of the active scene and the scenes with their root node indices. The
  further arrays of the schema are touched only by import and export routines that are
  not among the sources.
\<close>

record IAsset =
  asset_type :: string
  version :: string
  generator :: string
  copyright :: string

record IScene =
  nodes :: "nat list"

record IDocument =
  asset :: IAsset
  scene :: nat
  scenes :: "IScene list"

definition mimeType :: string where
  "mimeType = ''application/si-dpo-3d.document+json''"

definition documentVersion :: string where
  "documentVersion = ''1.0''"

subsection \<open>The inner graph\<close>

type_synonym node_ref = nat
type_synonym graph_ref = nat
type_synonym component_ref = nat

datatype node_class = NVScene | NVNode

text \<open>The optional \<^verbatim>\<open>quality\<close> argument: a member of the enumeration or a string.\<close>

datatype quality_arg = QualityMember EDerivativeQuality | QualityName string

datatype derivative_entry =
    ModelAsset string "quality_arg option"
  | MeshAsset string "string option" "string option" "string option" "quality_arg option"

text \<open>
  A node object: the graph it belongs to, its class, its place in the transform
  hierarchy, and the derivatives of its model component (\<open>None\<close> without one).
\<close>

record node =
  graph :: graph_ref
  nodeClass :: node_class
  parent :: "node_ref option"
  children :: "node_ref list"
  modelDerivatives :: "derivative_entry list option"

text \<open>
  The document component: its inner graph and the nodes registered in it in the order
  of their creation, the node objects (also those of other graphs), the output
  \<^verbatim>\<open>outs.assetPath\<close> and the name.
\<close>

record document =
  innerGraph :: graph_ref
  innerNodes :: "node_ref list"
  nodeHeap :: "node_ref \<Rightarrow> node"
  nextNode :: node_ref
  outs_assetPath :: string
  name :: string

text \<open>
  Modelled from the spec: the schema validator, \<^verbatim>\<open>isEmpty\<close> and \<^verbatim>\<open>Node.dispose\<close> of
  the graph framework, the import and export routines of the scene and node classes and
  the asset reader are not among the sources. They are parameters. The spec calls
  \<^verbatim>\<open>isEmpty\<close> "the graph is empty" and "the current graph root has no content"; an
  import routine returns the scratch map from document paths to components, an export
  routine the document it has written to, its path map and the index of the scene; the
  optional component filter of the export is a list of names.
\<close>

record doc_env =
  validate :: "IDocument \<Rightarrow> bool"
  isEmpty :: "document \<Rightarrow> bool"
  Node_dispose :: "node_ref \<Rightarrow> document \<Rightarrow> document"
  NVScene_fromDocument ::
    "node_ref \<Rightarrow> IDocument \<Rightarrow> nat \<Rightarrow> (string \<rightharpoonup> component_ref) \<Rightarrow> document \<Rightarrow>
     (error + (string \<rightharpoonup> component_ref)) \<times> document"
  NVNode_fromDocument ::
    "node_ref \<Rightarrow> IDocument \<Rightarrow> nat \<Rightarrow> (string \<rightharpoonup> component_ref) \<Rightarrow> document \<Rightarrow>
     (error + (string \<rightharpoonup> component_ref)) \<times> document"
  NVScene_toDocument ::
    "node_ref \<Rightarrow> document \<Rightarrow> IDocument \<Rightarrow> (component_ref \<rightharpoonup> string) \<Rightarrow>
     string list option \<Rightarrow> error + IDocument \<times> (component_ref \<rightharpoonup> string) \<times> nat"
  getAssetName :: "string \<Rightarrow> string"

text \<open>
  Modelled from the spec: the operations of the graph framework and of the node class
  that create a node in the inner graph, attach a transform to a parent, create a model
  component and register a derivative in it ("create a new node under a given parent,
  attach a model capability, and register one derivative").
\<close>

definition createCustomNode :: "document \<Rightarrow> node_class \<Rightarrow> node_ref \<times> document" where
  "createCustomNode D c =
     (let r = nextNode D
      in (r, D\<lparr>innerNodes := innerNodes D @ [r],
               nodeHeap := (nodeHeap D)
                 (r := \<lparr>graph = innerGraph D, nodeClass = c, parent = None, children = [],
                        modelDerivatives = None\<rparr>),
               nextNode := r + 1\<rparr>))"

definition addChild :: "document \<Rightarrow> node_ref \<Rightarrow> node_ref \<Rightarrow> document" where
  "addChild D p c =
     (let h1 = (nodeHeap D)(p := (nodeHeap D p)\<lparr>children := children (nodeHeap D p) @ [c]\<rparr>);
          h2 = h1(c := (h1 c)\<lparr>parent := Some p\<rparr>)
      in D\<lparr>nodeHeap := h2\<rparr>)"

definition createModel :: "document \<Rightarrow> node_ref \<Rightarrow> document" where
  "createModel D n = D\<lparr>nodeHeap := (nodeHeap D)(n := (nodeHeap D n)\<lparr>modelDerivatives := Some []\<rparr>)\<rparr>"

text \<open>
  \<^verbatim>\<open>model.derivatives.createModelAsset\<close> and \<^verbatim>\<open>createMeshAsset\<close>; the access
  \<^verbatim>\<open>modelNode.model\<close> yields no object when the node has no model component.
\<close>

definition createDerivative ::
  "document \<Rightarrow> node_ref \<Rightarrow> derivative_entry \<Rightarrow> (error + unit) \<times> document" where
  "createDerivative D n e =
     (case modelDerivatives (nodeHeap D n) of
        None \<Rightarrow> (Inl TypeError, D)
      | Some ds \<Rightarrow>
          (Inr (),
           D\<lparr>nodeHeap := (nodeHeap D)(n := (nodeHeap D n)\<lparr>modelDerivatives := Some (ds @ [e])\<rparr>)\<rparr>))"

definition createModelAsset ::
  "document \<Rightarrow> node_ref \<Rightarrow> string \<Rightarrow> quality_arg option \<Rightarrow> (error + unit) \<times> document" where
  "createModelAsset D n assetPath_arg quality_arg =
     createDerivative D n (ModelAsset assetPath_arg quality_arg)"

definition createMeshAsset ::
  "document \<Rightarrow> node_ref \<Rightarrow> string \<Rightarrow> string option \<Rightarrow> string option \<Rightarrow> string option \<Rightarrow>
   quality_arg option \<Rightarrow> (error + unit) \<times> document" where
  "createMeshAsset D n geoPath colorMapPath occlusionMapPath normalMapPath quality_arg =
     createDerivative D n
       (MeshAsset geoPath colorMapPath occlusionMapPath normalMapPath quality_arg)"

subsection \<open>The methods of the component\<close>

text \<open>
  The getter \<^verbatim>\<open>root\<close>: the scene node of the inner graph, \<open>None\<close> when the graph
  holds none.
\<close>

definition root :: "document \<Rightarrow> node_ref option" where
  "root D = find (\<lambda>r. nodeClass (nodeHeap D r) = NVScene) (innerNodes D)"

text \<open>
  \<^verbatim>\<open>clearNodeTree\<close> copies the list of the root's children and disposes of each; the
  access through a missing root raises.
\<close>

definition clearNodeTree :: "doc_env \<Rightarrow> document \<Rightarrow> (error + unit) \<times> document" where
  "clearNodeTree E D =
     (case root D of
        None \<Rightarrow> (Inl TypeError, D)
      | Some r \<Rightarrow>
          (Inr (), foldl (\<lambda>D' child. Node_dispose E child D') D (children (nodeHeap D r))))"

text \<open>
  The argument \<^verbatim>\<open>mergeParent\<close> is absent, a boolean or a node. It is falsy when
  absent or \<^verbatim>\<open>false\<close>, and an object only when it is a node.
\<close>

datatype mergeParent_arg = MergeUndefined | MergeBoolean bool | MergeNode node_ref

definition falsy_mergeParent :: "mergeParent_arg \<Rightarrow> bool" where
  "falsy_mergeParent mp = (mp = MergeUndefined \<or> mp = MergeBoolean False)"

text \<open>
  The \<^verbatim>\<open>forEach\<close> over the root indices of the document's scene when the parent is
  not a scene: one new node per index, attached to the parent and then inflated. A
  throw of the import routine ends the loop.
\<close>

fun appendRoots ::
  "doc_env \<Rightarrow> node_ref \<Rightarrow> IDocument \<Rightarrow> nat list \<Rightarrow> (string \<rightharpoonup> component_ref) \<Rightarrow> document \<Rightarrow>
   (error + (string \<rightharpoonup> component_ref)) \<times> document" where
  "appendRoots E p documentData [] pathMap D = (Inr pathMap, D)"
| "appendRoots E p documentData (rootIndex # rest) pathMap D =
     (let (rootNode, D1) = createCustomNode D NVNode;
          D2 = addChild D1 p rootNode
      in case NVNode_fromDocument E rootNode documentData rootIndex pathMap D2 of
           (Inl e, D3) \<Rightarrow> (Inl e, D3)
         | (Inr pathMap', D3) \<Rightarrow> appendRoots E p documentData rest pathMap' D3)"

definition openDocument ::
  "doc_env \<Rightarrow> document \<Rightarrow> IDocument \<Rightarrow> string option \<Rightarrow> mergeParent_arg \<Rightarrow>
   (error + unit) \<times> document" where
  "openDocument E D documentData assetPath_arg mergeParent =
     (if \<not> validate E documentData then
        (Inl (Error ''document schema validation failed''), D)
      else
        (case (if falsy_mergeParent mergeParent then clearNodeTree E D else (Inr (), D)) of
           (Inl e, D1) \<Rightarrow> (Inl e, D1)
         | (Inr _, D1) \<Rightarrow>
             (case (case mergeParent of MergeNode n \<Rightarrow> Some n | _ \<Rightarrow> root D1) of
                None \<Rightarrow> (Inl TypeError, D1)
              | Some p \<Rightarrow>
                  if graph (nodeHeap D1 p) \<noteq> innerGraph D1 then
                    (Inl (Error ''invalid parent node''), D1)
                  else
                    (case (if nodeClass (nodeHeap D1 p) = NVScene then
                             NVScene_fromDocument E p documentData (scene documentData)
                               Map.empty D1
                           else if scene documentData < length (scenes documentData) then
                             appendRoots E p documentData
                               (nodes (scenes documentData ! scene documentData))
                               Map.empty D1
                           else (Inl TypeError, D1)) of
                       (Inl e, D2) \<Rightarrow> (Inl e, D2)
                     | (Inr pathMap, D2) \<Rightarrow>
                         (case assetPath_arg of
                            None \<Rightarrow> (Inr (), D2)
                          | Some a \<Rightarrow>
                              if a = [] then (Inr (), D2)
                              else (Inr (), D2\<lparr>outs_assetPath := a,
                                               name := getAssetName E a\<rparr>))))))"

text \<open>
  \<^verbatim>\<open>appendModel\<close>: the two checks, then the parent (the root by default, taken
  before the node is created), the new node, its attachment and its model. A missing
  root raises at the first access through it, when the node exists already.
\<close>

definition appendModel ::
  "doc_env \<Rightarrow> document \<Rightarrow> string \<Rightarrow> quality_arg option \<Rightarrow> node_ref option \<Rightarrow>
   (error + unit) \<times> document" where
  "appendModel E D assetPath_arg quality_arg parent_arg =
     (if (case parent_arg of Some p \<Rightarrow> graph (nodeHeap D p) \<noteq> innerGraph D | None \<Rightarrow> False)
      then (Inl (Error ''invalid parent node''), D)
      else if isEmpty E D then (Inl (Error ''empty document, can't append model''), D)
      else
        (let parent' = (case parent_arg of Some p \<Rightarrow> Some p | None \<Rightarrow> root D);
             (modelNode, D1) = createCustomNode D NVNode
         in case parent' of
              None \<Rightarrow> (Inl TypeError, D1)
            | Some p \<Rightarrow>
                (let D2 = addChild D1 p modelNode;
                     D3 = createModel D2 modelNode
                 in createModelAsset D3 modelNode assetPath_arg quality_arg)))"

definition appendGeometry ::
  "doc_env \<Rightarrow> document \<Rightarrow> string \<Rightarrow> string option \<Rightarrow> string option \<Rightarrow> string option \<Rightarrow>
   quality_arg option \<Rightarrow> node_ref option \<Rightarrow> (error + unit) \<times> document" where
  "appendGeometry E D geoPath colorMapPath occlusionMapPath normalMapPath quality_arg parent_arg =
     (if (case parent_arg of Some p \<Rightarrow> graph (nodeHeap D p) \<noteq> innerGraph D | None \<Rightarrow> False)
      then (Inl (Error ''invalid parent node''), D)
      else if isEmpty E D then (Inl (Error ''empty document, can't append geometry''), D)
      else
        (let parent' = (case parent_arg of Some p \<Rightarrow> Some p | None \<Rightarrow> root D);
             (modelNode, D1) = createCustomNode D NVNode
         in case parent' of
              None \<Rightarrow> (Inl TypeError, D1)
            | Some p \<Rightarrow>
                (let D2 = addChild D1 p modelNode;
                     D3 = createModel D2 modelNode
                 in createMeshAsset D3 modelNode geoPath colorMapPath occlusionMapPath
                      normalMapPath quality_arg)))"

text \<open>
  \<^verbatim>\<open>deflateDocument\<close>: the emptiness check, the new document object with the asset
  block, and the export of the scene, whose result becomes the scene index.
\<close>

definition new_document_data :: IDocument where
  "new_document_data =
     \<lparr>asset = \<lparr>asset_type = mimeType, version = documentVersion, generator = ''Voyager'',
               copyright = ''(c) Smithsonian Institution. All rights reserved.''\<rparr>,
      scene = 0,
      scenes = []\<rparr>"

definition deflateDocument ::
  "doc_env \<Rightarrow> document \<Rightarrow> string list option \<Rightarrow> error + IDocument" where
  "deflateDocument E D components =
     (if isEmpty E D then Inl (Error ''empty document, can't serialize'')
      else
        (case root D of
           None \<Rightarrow> Inl TypeError
         | Some r \<Rightarrow>
             (case NVScene_toDocument E r D new_document_data Map.empty components of
                Inl e \<Rightarrow> Inl e
              | Inr (document', pathMap, sceneIndex) \<Rightarrow> Inr (document'\<lparr>scene := sceneIndex\<rparr>))))"

section \<open>An invariant of the model\<close>

text \<open>The field \<^verbatim>\<open>boundingBox\<close> of the model holds a box object.\<close>

definition hasBox :: "state \<Rightarrow> bool" where
  "hasBox s \<longleftrightarrow> boundingBox (this s) \<noteq> None"

section \<open>Example states\<close>

text \<open>
  A model with two web derivatives, the first of quality Low and the second of quality
  High; nothing is loaded.
\<close>

definition lowHighState :: state where
  "lowHighState =
     \<lparr>this = new_Model\<lparr>derivatives := [0, 1]\<rparr>,
      heap = (\<lambda>r. new_Derivative Web Low [])(1 := new_Derivative Web High []),
      nextDerivative = 2, nextObject = 0, trace = []\<rparr>"

text \<open>A box with finite corners, unlike the empty box of a new model.\<close>

definition unitBox :: Box3 where
  "unitBox =
     \<lparr>box_min = (Finite 0, Finite 0, Finite 0), box_max = (Finite 1, Finite 1, Finite 1)\<rparr>"

text \<open>
  Collaborators for the examples: every load resolves and leaves the derivative with the
  rendered object 7 and the unit box; a disposal clears the rendered object.
\<close>

definition exampleEnv :: env where
  "exampleEnv =
     \<lparr>Derivative_load = (\<lambda>r d lm p. Inr (d\<lparr>model := Some 7, dBoundingBox := Some unitBox\<rparr>)),
      Derivative_dispose = (\<lambda>d. d\<lparr>model := None\<rparr>),
      matrixToProps = (\<lambda>m. (zeroVector, zeroVector))\<rparr>"

text \<open>
  A model as the constructor leaves it, next to one web derivative of quality High
  (object 0) that is in no list yet.
\<close>

definition freshState :: state where
  "freshState =
     \<lparr>this = new_Model,
      heap = (\<lambda>r. new_Derivative Web High []),
      nextDerivative = 1, nextObject = 0, trace = []\<rparr>"

text \<open>The derivative has been added and a loading manager has been set.\<close>

definition readyState :: state where
  "readyState = setLoadingManager (addDerivative freshState 0) (Some 0)"


definition millimetreData :: IModel where
  "millimetreData = \<lparr>iUnits = ''mm'', iDerivatives = [], iTransform = None, iBoundingBox = None\<rparr>"

text \<open>
  A model with a loading manager and two web derivatives, of quality Thumb and of
  quality High.
\<close>

definition thumbHighState :: state where
  "thumbHighState =
     \<lparr>this = new_Model\<lparr>derivatives := [0, 1], loadingManager := Some 0\<rparr>,
      heap = (\<lambda>r. new_Derivative Web Thumb [])(1 := new_Derivative Web High []),
      nextDerivative = 2, nextObject = 0, trace = []\<rparr>"

text \<open>The same model before a loading manager has been set.\<close>

definition noManagerState :: state where
  "noManagerState = setLoadingManager thumbHighState None"

text \<open>
  A document whose inner graph (graph 1) holds the scene node 0 and nothing else; every
  other node object belongs to another graph (graph 2). The same document with no node
  registered in its inner graph.
\<close>

definition foreignNode :: node where
  "foreignNode =
     \<lparr>graph = 2, nodeClass = NVNode, parent = None, children = [], modelDerivatives = None\<rparr>"

definition sceneNode :: node where
  "sceneNode =
     \<lparr>graph = 1, nodeClass = NVScene, parent = None, children = [], modelDerivatives = None\<rparr>"

definition exampleDocument :: document where
  "exampleDocument =
     \<lparr>innerGraph = 1, innerNodes = [0], nodeHeap = (\<lambda>r. foreignNode)(0 := sceneNode),
      nextNode = 1, outs_assetPath = [], name = []\<rparr>"

definition emptyDocument :: document where
  "emptyDocument = exampleDocument\<lparr>innerNodes := []\<rparr>"

text \<open>
  Collaborators for the examples: the validator rejects a document whose scene index
  points at no scene, a graph is empty when no node is registered in it, the import
  routines read nothing, the export routine writes one scene without nodes.
\<close>

definition exampleDocEnv :: doc_env where
  "exampleDocEnv =
     \<lparr>validate = (\<lambda>d. scene d < length (scenes d)),
      isEmpty = (\<lambda>D. innerNodes D = []),
      Node_dispose = (\<lambda>n D. D\<lparr>innerNodes := removeAll n (innerNodes D)\<rparr>),
      NVScene_fromDocument = (\<lambda>n d i pathMap D. (Inr pathMap, D)),
      NVNode_fromDocument = (\<lambda>n d i pathMap D. (Inr pathMap, D)),
      NVScene_toDocument =
        (\<lambda>n D d pathMap components.
           Inr (d\<lparr>scenes := scenes d @ [\<lparr>nodes = []\<rparr>]\<rparr>, pathMap, length (scenes d))),
      getAssetName = (\<lambda>p. p)\<rparr>"

section \<open>Selection of a derivative\<close>

text \<open>The loops of the source compute what the library's \<open>find\<close> computes.\<close>

lemma findDerivative_loop_find:
  "findDerivative_loop h ds q u = find (matches h q u) ds"
  by (induction ds) (auto simp: matches_def)

lemma findDerivative_find:
  "findDerivative s q (Some u) = find (matches (heap s) q u) (derivatives (this s))"
  "findDerivative s q None = find (matches (heap s) q Web) (derivatives (this s))"
  by (simp_all add: findDerivative_def findDerivative_loop_find)

lemma higher_loop_firstFound:
  "higher_loop s u i = firstFound (heap s) (derivatives (this s)) u (drop i qualityLevels)"
proof (induction s u i rule: higher_loop.induct)
  case (1 s u i)
  show ?case
  proof (cases "i < length qualityLevels")
    case True
    then have d: "drop i qualityLevels = qualityLevels ! i # drop (i + 1) qualityLevels"
      by (simp add: Cons_nth_drop_Suc)
    show ?thesis
      using True 1
      by (subst higher_loop.simps) (simp add: d findDerivative_find split: option.splits)
  next
    case False
    then show ?thesis
      by (subst higher_loop.simps) simp
  qed
qed

lemma lower_loop_firstFound:
  "- 1 \<le> i \<Longrightarrow> i < int (length qualityLevels) \<Longrightarrow>
   lower_loop s u i =
     firstFound (heap s) (derivatives (this s)) u (rev (take (nat (i + 1)) qualityLevels))"
proof (induction s u i rule: lower_loop.induct)
  case (1 s u i)
  show ?case
  proof (cases "i \<ge> 0")
    case True
    then have n: "nat (i + 1) = Suc (nat i)" by simp
    have lt: "nat i < length qualityLevels" using True 1(3) by simp
    have t: "rev (take (nat (i + 1)) qualityLevels) =
               qualityLevels ! nat i # rev (take (nat i) qualityLevels)"
      using lt by (simp add: n take_Suc_conv_app_nth)
    have n2: "nat (i - 1 + 1) = nat i" by simp
    show ?thesis
      using True 1
      by (subst lower_loop.simps) (simp add: t n2 findDerivative_find split: option.splits)
  next
    case False
    with 1(2) have "i = - 1" by simp
    then show ?thesis
      by (subst lower_loop.simps) simp
  qed
qed

lemma selectDerivative_at_index:
  assumes "indexOf qualityLevels q = int k" and "k < length qualityLevels"
    and "drop (k + 1) qualityLevels = higherAscending q"
    and "rev (take k qualityLevels) = lowerDescending q"
  shows "selectDerivative s q usage_arg =
     Inr (selectDerivative_spec s q (case usage_arg of Some u \<Rightarrow> u | None \<Rightarrow> Web))"
proof -
  have a: "nat (int k + 1) = k + 1" "nat (int k - 1 + 1) = k" by simp_all
  have b: "- 1 \<le> int k - 1" "int k - 1 < int (length qualityLevels)"
    using assms(2) by simp_all
  show ?thesis
    unfolding selectDerivative_def selectDerivative_spec_def Let_def assms(1)
      findDerivative_find higher_loop_firstFound lower_loop_firstFound [OF b] a assms(3,4)
    by (simp split: option.splits)
qed

lemma selectDerivative_supported:
  assumes q: "q \<in> set qualityLevels"
  shows "selectDerivative s q usage_arg =
        Inr (selectDerivative_spec s q (case usage_arg of Some u \<Rightarrow> u | None \<Rightarrow> Web))"
proof -
  from q consider "q = Thumb" | "q = Low" | "q = Medium" | "q = High" | "q = Highest"
    by (auto simp: qualityLevels_def)
  then show ?thesis
  proof cases
    case 1
    show ?thesis
      by (rule selectDerivative_at_index [where k = 0])
        (simp_all add: 1 indexOf_def qualityLevels_def)
  next
    case 2
    show ?thesis
      by (rule selectDerivative_at_index [where k = 1])
        (simp_all add: 2 indexOf_def qualityLevels_def)
  next
    case 3
    show ?thesis
      by (rule selectDerivative_at_index [where k = 2])
        (simp_all add: 3 indexOf_def qualityLevels_def)
  next
    case 4
    show ?thesis
      by (rule selectDerivative_at_index [where k = 3])
        (simp_all add: 4 indexOf_def qualityLevels_def)
  next
    case 5
    show ?thesis
      by (rule selectDerivative_at_index [where k = 4])
        (simp_all add: 5 indexOf_def qualityLevels_def)
  qed
qed

lemma select_Medium_of_Low_High:
  assumes only: "\<forall>d \<in> set (derivatives (this s)).
            usage (heap s d) = Web \<and> (quality (heap s d) = Low \<or> quality (heap s d) = High)"
    and high: "\<exists>d \<in> set (derivatives (this s)). quality (heap s d) = High"
  shows "\<exists>d \<in> set (derivatives (this s)).
            selectDerivative s Medium None = Inr (Some d) \<and> quality (heap s d) = High"
proof -
  let ?ds = "derivatives (this s)"
  have none: "find (matches (heap s) Medium Web) ?ds = None"
    using only by (auto simp: find_None_iff matches_def)
  from high only have "\<exists>d \<in> set ?ds. matches (heap s) High Web d"
    by (auto simp: matches_def)
  then obtain d where d: "find (matches (heap s) High Web) ?ds = Some d"
    by (cases "find (matches (heap s) High Web) ?ds") (auto simp: find_None_iff)
  then have "d \<in> set ?ds" "quality (heap s d) = High"
    by (auto simp: find_Some_iff matches_def)
  moreover have "selectDerivative s Medium None = Inr (Some d)"
    by (simp add: selectDerivative_supported qualityLevels_def selectDerivative_spec_def none d)
  ultimately show ?thesis by blast
qed

text \<open>
  Claim C1. For every model and every supported quality level, \<open>selectDerivative\<close>
  returns the derivative that matches quality and usage exactly when the list holds
  one; otherwise the first one found while scanning the strictly higher levels in
  ascending order; otherwise the first one found while scanning the strictly lower
  levels in descending order; otherwise none. In particular, when the list holds web
  derivatives of the qualities Low and High only, and one of quality High, a request for
  Medium returns a derivative of quality High.
\<close>

theorem selectDerivative_follows_spec:
  "(q \<in> set qualityLevels \<longrightarrow>
      selectDerivative s q usage_arg =
        Inr (selectDerivative_spec s q (case usage_arg of Some u \<Rightarrow> u | None \<Rightarrow> Web)))
   \<and> ((\<forall>d \<in> set (derivatives (this s)).
          usage (heap s d) = Web \<and> (quality (heap s d) = Low \<or> quality (heap s d) = High))
       \<and> (\<exists>d \<in> set (derivatives (this s)). quality (heap s d) = High) \<longrightarrow>
       (\<exists>d \<in> set (derivatives (this s)).
          selectDerivative s Medium None = Inr (Some d) \<and> quality (heap s d) = High))"
  using selectDerivative_supported select_Medium_of_Low_High by blast

theorem selectDerivative_follows_spec_witness:
  "Medium \<in> set qualityLevels \<and> selectDerivative lowHighState Medium None = Inr (Some 1)
   \<and> quality (heap lowHighState 1) = High \<and> quality (heap lowHighState 0) = Low"
  using selectDerivative_follows_spec [of Medium lowHighState None]
  by (simp add: qualityLevels_def lowHighState_def selectDerivative_spec_def matches_def
      new_Derivative_def new_Model_def)

section \<open>Removing a derivative\<close>

lemma indexOf_from_absent: "x \<notin> set xs \<Longrightarrow> indexOf_from xs x i = - 1"
  by (induction xs arbitrary: i) auto

lemma splice_last: "xs \<noteq> [] \<Longrightarrow> splice xs (- 1) 1 = butlast xs"
  by (cases xs rule: rev_cases) (simp_all add: splice_def Let_def)

text \<open>
  Claim C9. When the derivative list is not empty and the derivative \<open>d\<close> is not in
  it, \<open>removeDerivative d\<close> still removes one element, the last one: the index is
  -1, and a splice at -1 starts at the last element.
\<close>

theorem removeDerivative_absent_drops_last:
  "derivatives (this s) \<noteq> [] \<Longrightarrow> d \<notin> set (derivatives (this s)) \<Longrightarrow>
   indexOf (derivatives (this s)) d = - 1
   \<and> derivatives (this (removeDerivative s d)) = butlast (derivatives (this s))
   \<and> length (derivatives (this (removeDerivative s d))) + 1 = length (derivatives (this s))"
  by (simp add: removeDerivative_def Let_def indexOf_def indexOf_from_absent splice_last)

theorem removeDerivative_absent_drops_last_witness:
  "derivatives (this lowHighState) \<noteq> [] \<and> 5 \<notin> set (derivatives (this lowHighState))
   \<and> derivatives (this (removeDerivative lowHighState 5)) = [0]"
  using removeDerivative_absent_drops_last [of lowHighState 5]
  by (simp add: lowHighState_def)

section \<open>Inflating a model that has derivatives\<close>

text \<open>
  Claim C6. For every model whose derivative list is not empty, \<open>fromData\<close> fails
  with an error and leaves the derivatives untouched: the list is the same, and so are
  the derivative objects and the allocation counter (none added, removed or replaced).
\<close>

theorem fromData_existing_derivatives_fails:
  "derivatives (this s) \<noteq> [] \<Longrightarrow>
   fst (fromData E s modelData) =
     Inl (Error ''existing derivatives; failed to inflate from modelData'')
   \<and> derivatives (this (snd (fromData E s modelData))) = derivatives (this s)
   \<and> heap (snd (fromData E s modelData)) = heap s
   \<and> nextDerivative (snd (fromData E s modelData)) = nextDerivative s"
  by (simp add: fromData_def Let_def)

theorem fromData_existing_derivatives_fails_witness:
  "derivatives (this lowHighState) \<noteq> []
   \<and> fst (fromData exampleEnv lowHighState millimetreData) =
       Inl (Error ''existing derivatives; failed to inflate from modelData'')
   \<and> derivatives (this (snd (fromData exampleEnv lowHighState millimetreData))) = [0, 1]"
  using fromData_existing_derivatives_fails [of lowHighState exampleEnv millimetreData]
  by (simp add: lowHighState_def)

text \<open>
  Claim C10. When \<open>fromData\<close> fails because derivatives exist, the units of the
  model have been overwritten with the units of the data all the same: the assignment
  precedes the check.
\<close>

theorem fromData_failure_overwrites_units:
  "derivatives (this s) \<noteq> [] \<Longrightarrow>
   fst (fromData E s modelData) =
     Inl (Error ''existing derivatives; failed to inflate from modelData'')
   \<and> units (this (snd (fromData E s modelData))) = iUnits modelData"
  by (simp add: fromData_def Let_def)

theorem fromData_failure_overwrites_units_witness:
  "derivatives (this lowHighState) \<noteq> []
   \<and> units (this lowHighState) = ''cm''
   \<and> units (this (snd (fromData exampleEnv lowHighState millimetreData))) = ''mm''"
  using fromData_failure_overwrites_units [of lowHighState exampleEnv millimetreData]
  by (simp add: lowHighState_def millimetreData_def new_Model_def)

section \<open>Disposing of a model\<close>

lemma foldl_dispose_this:
  "this (foldl (call_Derivative_dispose E) s ds) = this s"
  by (induction ds arbitrary: s) (simp_all add: call_Derivative_dispose_def emit_def)




lemma dispose_derivatives: "derivatives (this (dispose E s)) = derivatives (this s)"
  by (simp add: dispose_def Let_def emit_def foldl_dispose_this)

lemmas example_defs =
  readyState_def freshState_def exampleEnv_def setLoadingManager_def addDerivative_def
  new_Model_def new_Derivative_def


lemma readyState_load:
  "loadDerivative exampleEnv readyState 0 =
     (Inr Resolved,
      readyState\<lparr>this := (this readyState)\<lparr>activeDerivative := Some 0\<rparr>,
                 heap := (heap readyState)
                   (0 := (heap readyState 0)\<lparr>model := Some 7, dBoundingBox := Some unitBox\<rparr>),
                 trace := [DerivativeLoad 0 0 [], AddChild (Some 7), Emit updateEvent]\<rparr>)"
  by (simp add: loadDerivative_def loadDerivative_then_def emit_def Let_def example_defs)





section \<open>Loading a derivative\<close>

text \<open>A model that has a bounding box keeps it through every load.\<close>

lemma loadDerivative_then_keeps_boundingBox:
  "boundingBox (this s) = Some b \<Longrightarrow>
   boundingBox (this (snd (loadDerivative_then E s d))) = Some b"
  by (simp add: loadDerivative_then_def Let_def emit_def call_Derivative_dispose_def
      split: option.splits)

lemma loadDerivative_keeps_boundingBox:
  "boundingBox (this s) = Some b \<Longrightarrow>
   boundingBox (this (snd (loadDerivative E s d))) = Some b"
  by (simp add: loadDerivative_def Let_def emit_def case_prod_beta
      loadDerivative_then_keeps_boundingBox split: option.splits sum.splits)

text \<open>
  Claim C4 at a new model. The constructor gives the model the empty box, so the guard
  of the assignment never holds: the load succeeds, the derivative becomes active and
  has the unit box, and the model still has the empty box.
\<close>

theorem loadDerivative_ignores_derivative_box:
  "boundingBox (this readyState) = Some new_Box3
   \<and> fst (loadDerivative exampleEnv readyState 0) = Inr Resolved
   \<and> activeDerivative (this (snd (loadDerivative exampleEnv readyState 0))) = Some 0
   \<and> Emit updateEvent \<in> set (trace (snd (loadDerivative exampleEnv readyState 0)))
   \<and> dBoundingBox (heap (snd (loadDerivative exampleEnv readyState 0)) 0) = Some unitBox
   \<and> boundingBox (this (snd (loadDerivative exampleEnv readyState 0))) = Some new_Box3
   \<and> new_Box3 \<noteq> unitBox"
  unfolding readyState_load
  by (simp add: new_Box3_def unitBox_def example_defs)

section \<open>Loading in sequence\<close>

lemma promise_then_Rejected: "promise_then (Rejected e, s) f = (Rejected e, s)"
  by (simp add: promise_then_def)

lemma promise_then_Resolved:
  "promise_then (Resolved, s) f =
     (case f s of (Inl e, s') \<Rightarrow> (Rejected e, s') | (Inr p, s') \<Rightarrow> (p, s'))"
  by (simp add: promise_then_def)

lemma chain_rejected:
  "foldl (\<lambda>promise derivative. promise_then promise (\<lambda>s. loadDerivative E s derivative))
     (Rejected e, s) ds = (Rejected e, s)"
  by (induction ds) (simp_all add: promise_then_Rejected)

lemma chain_loadInOrder:
  "foldl (\<lambda>promise derivative. promise_then promise (\<lambda>s. loadDerivative E s derivative))
     (Resolved, s) ds = loadInOrder E s ds"
proof (induction ds arbitrary: s)
  case Nil
  show ?case by simp
next
  case (Cons d ds)
  obtain r s1 where l: "loadDerivative E s d = (r, s1)"
    by (cases "loadDerivative E s d")
  show ?case
  proof (cases r)
    case (Inl e)
    with l show ?thesis by (simp add: promise_then_Resolved chain_rejected)
  next
    case (Inr p)
    with l Cons show ?thesis
      by (cases p) (simp_all add: promise_then_Resolved chain_rejected)
  qed
qed

lemma autoLoad_loadInOrder:
  "autoLoad_sequence s q = Inr sequence \<Longrightarrow> sequence \<noteq> [] \<Longrightarrow>
   autoLoad E s q = (Inr (fst (loadInOrder E s sequence)), snd (loadInOrder E s sequence))"
  by (simp add: autoLoad_def chain_loadInOrder case_prod_beta)

lemma autoLoad_empty:
  "autoLoad_sequence s q = Inr [] \<Longrightarrow>
   autoLoad E s q = (Inr (Rejected (Error ''no suitable web-derivatives available'')), s)"
  by (simp add: autoLoad_def)

lemma autoLoad_sequence_supported:
  "q \<in> set qualityLevels \<Longrightarrow>
   autoLoad_sequence s q =
     Inr ((case find (matches (heap s) Thumb Web) (derivatives (this s)) of
             Some t \<Rightarrow> [t] | None \<Rightarrow> [])
          @ (case selectDerivative_spec s q Web of Some d \<Rightarrow> [d] | None \<Rightarrow> []))"
  by (simp add: autoLoad_sequence_def selectDerivative_supported findDerivative_find
      split: option.splits)

lemma loadDerivative_then_trace:
  "\<exists>rest. trace (snd (loadDerivative_then E s d)) = trace s @ rest \<and> filter isLoad rest = []"
  by (simp add: loadDerivative_then_def Let_def emit_def call_Derivative_dispose_def
      split: option.splits)

lemma loadDerivative_then_fields:
  "loadingManager (this (snd (loadDerivative_then E s d))) = loadingManager (this s)"
  "assetPath (this (snd (loadDerivative_then E s d))) = assetPath (this s)"
  by (simp_all add: loadDerivative_then_def Let_def emit_def call_Derivative_dispose_def
      split: option.splits)

lemma loadDerivative_fields:
  "loadingManager (this (snd (loadDerivative E s d))) = loadingManager (this s)"
  "assetPath (this (snd (loadDerivative E s d))) = assetPath (this s)"
  by (simp_all add: loadDerivative_def Let_def emit_def case_prod_beta
      loadDerivative_then_fields split: option.splits sum.splits)

lemma loadDerivative_trace:
  assumes "loadingManager (this s) = Some lm"
  shows "\<exists>rest. trace (snd (loadDerivative E s d)) =
            trace s @ DerivativeLoad d lm (assetPath (this s)) # rest
          \<and> filter isLoad rest = []"
proof (cases "Derivative_load E d (heap s d) lm (assetPath (this s))")
  case (Inl e)
  with assms show ?thesis by (simp add: loadDerivative_def Let_def emit_def)
next
  case (Inr d')
  let ?s1 = "(emit s (DerivativeLoad d lm (assetPath (this s))))\<lparr>heap := (heap s)(d := d')\<rparr>"
  obtain rest where r: "trace (snd (loadDerivative_then E ?s1 d)) = trace ?s1 @ rest"
    "filter isLoad rest = []"
    using loadDerivative_then_trace by blast
  have "snd (loadDerivative E s d) = snd (loadDerivative_then E ?s1 d)"
    using assms Inr by (simp add: loadDerivative_def Let_def emit_def case_prod_beta)
  with r show ?thesis by (simp add: emit_def)
qed

lemma loadInOrder_last:
  "snd (loadInOrder E s [d]) = snd (loadDerivative E s d)"
  by (cases "loadDerivative E s d") (auto split: sum.splits promise.splits)

lemma two_loads:
  assumes lm: "loadingManager (this s) = Some lm"
    and first: "fst (loadDerivative E s t) = Inr Resolved"
  shows "filter isLoad (drop (length (trace s)) (trace (snd (loadInOrder E s [t, d])))) =
           [DerivativeLoad t lm (assetPath (this s)), DerivativeLoad d lm (assetPath (this s))]"
proof -
  obtain s1 where l: "loadDerivative E s t = (Inr Resolved, s1)"
    using first by (cases "loadDerivative E s t") simp
  then have s1: "s1 = snd (loadDerivative E s t)" by simp
  have step: "loadInOrder E s [t, d] = loadInOrder E s1 [d]"
    using l by simp
  obtain r1 where r1: "trace s1 = trace s @ DerivativeLoad t lm (assetPath (this s)) # r1"
    "filter isLoad r1 = []"
    using loadDerivative_trace [OF lm, of E t] unfolding s1 by blast
  have lm1: "loadingManager (this s1) = Some lm" "assetPath (this s1) = assetPath (this s)"
    unfolding s1 by (simp_all add: loadDerivative_fields lm)
  obtain r2 where r2: "trace (snd (loadDerivative E s1 d)) =
      trace s1 @ DerivativeLoad d lm (assetPath (this s)) # r2" "filter isLoad r2 = []"
    using loadDerivative_trace [OF lm1(1), of E d] lm1(2) by auto
  show ?thesis
    unfolding step loadInOrder_last r2(1) r1(1)
    by (simp add: r1(2) r2(2))
qed

text \<open>
  What \<open>autoLoad\<close> does outside the good case: an unsupported quality makes it
  throw, without a loading manager no load starts, and a thumbnail load that does not
  resolve is the only load. A load resolves when the loader returns the derivative with
  a bounding box and the derivative is not the active one already.
\<close>

lemma selectDerivative_unsupported:
  "q \<notin> set qualityLevels \<Longrightarrow>
   selectDerivative s q usage_arg = Inl (Error ''derivative quality not supported'')"
  by (simp add: selectDerivative_def Let_def indexOf_def indexOf_from_absent)

lemma autoLoad_unsupported:
  "q \<notin> set qualityLevels \<Longrightarrow>
   autoLoad E s q = (Inl (Error ''derivative quality not supported''), s)"
  by (simp add: autoLoad_def autoLoad_sequence_def Let_def selectDerivative_unsupported)

lemma loadDerivative_no_manager:
  "loadingManager (this s) = None \<Longrightarrow>
   loadDerivative E s d =
     (Inl (Error ''can't load derivative, loading manager not set''), s)"
  by (simp add: loadDerivative_def)

lemma loadInOrder_no_manager:
  "loadingManager (this s) = None \<Longrightarrow> ds \<noteq> [] \<Longrightarrow>
   loadInOrder E s ds =
     (Rejected (Error ''can't load derivative, loading manager not set''), s)"
  by (cases ds) (simp_all add: loadDerivative_no_manager)

lemma one_load:
  assumes lm: "loadingManager (this s) = Some lm"
    and first: "fst (loadDerivative E s t) \<noteq> Inr Resolved"
  shows "filter isLoad (drop (length (trace s)) (trace (snd (loadInOrder E s [t, d])))) =
           [DerivativeLoad t lm (assetPath (this s))]"
proof -
  obtain r s1 where l: "loadDerivative E s t = (r, s1)"
    by (cases "loadDerivative E s t")
  with first have r: "r \<noteq> Inr Resolved" by simp
  have stop: "snd (loadInOrder E s [t, d]) = s1"
    using l r by (auto split: sum.splits promise.splits)
  obtain r1 where r1: "trace s1 = trace s @ DerivativeLoad t lm (assetPath (this s)) # r1"
    "filter isLoad r1 = []"
    using loadDerivative_trace [OF lm, of E t] l by auto
  show ?thesis
    unfolding stop r1(1) by (simp add: r1(2))
qed

lemma loads_of_pair:
  assumes lm: "loadingManager (this s) = Some lm"
  shows "filter isLoad (drop (length (trace s)) (trace (snd (loadInOrder E s [t, d])))) =
           DerivativeLoad t lm (assetPath (this s)) #
           (if fst (loadDerivative E s t) = Inr Resolved
            then [DerivativeLoad d lm (assetPath (this s))] else [])"
  using two_loads [OF lm, of E t d] one_load [OF lm, of E t d] by simp

lemma loadDerivative_then_resolves:
  assumes "dBoundingBox (heap s d) \<noteq> None" and "activeDerivative (this s) \<noteq> Some d"
  shows "fst (loadDerivative_then E s d) = Resolved"
  using assms
  by (auto simp: loadDerivative_then_def Let_def emit_def call_Derivative_dispose_def
      split: option.splits)

lemma loadDerivative_resolves:
  assumes "loadingManager (this s) = Some lm"
    and "Derivative_load E d (heap s d) lm (assetPath (this s)) = Inr d'"
    and "dBoundingBox d' \<noteq> None" and "activeDerivative (this s) \<noteq> Some d"
  shows "fst (loadDerivative E s d) = Inr Resolved"
  using assms
  by (simp add: loadDerivative_def Let_def emit_def case_prod_beta loadDerivative_then_resolves)

text \<open>
  Claim C3, as stated, fails: with a derivative of quality Thumb and one of the
  requested quality High in the list, but no loading manager set, \<open>autoLoad\<close>
  returns a rejected promise and issues no load at all, where the claim has exactly two.
\<close>

theorem autoLoad_without_manager_issues_no_load:
  "High \<in> set qualityLevels
   \<and> findDerivative noManagerState Thumb None = Some 0
   \<and> selectDerivative noManagerState High None = Inr (Some 1)
   \<and> autoLoad exampleEnv noManagerState High =
       (Inr (Rejected (Error ''can't load derivative, loading manager not set'')),
        noManagerState)
   \<and> filter isLoad (trace (snd (autoLoad exampleEnv noManagerState High))) = []"
proof -
  have q: "High \<in> set qualityLevels" by (simp add: qualityLevels_def)
  have thumb: "findDerivative noManagerState Thumb None = Some 0"
    by (simp add: findDerivative_find noManagerState_def setLoadingManager_def
        thumbHighState_def matches_def new_Derivative_def new_Model_def)
  have second: "selectDerivative noManagerState High None = Inr (Some 1)"
    by (simp add: selectDerivative_supported [OF q] selectDerivative_spec_def
        noManagerState_def setLoadingManager_def thumbHighState_def matches_def
        new_Derivative_def new_Model_def)
  have seq: "autoLoad_sequence noManagerState High = Inr [0, 1]"
    by (simp add: autoLoad_sequence_def thumb second)
  have lm: "loadingManager (this noManagerState) = None" "trace noManagerState = []"
    by (simp_all add: noManagerState_def setLoadingManager_def thumbHighState_def)
  have auto: "autoLoad exampleEnv noManagerState High =
       (Inr (Rejected (Error ''can't load derivative, loading manager not set'')),
        noManagerState)"
  proof -
    have "loadInOrder exampleEnv noManagerState [0, 1] =
        (Rejected (Error ''can't load derivative, loading manager not set''), noManagerState)"
      by (rule loadInOrder_no_manager [OF lm(1)]) simp
    then show ?thesis
      unfolding autoLoad_loadInOrder [OF seq, of exampleEnv, simplified] by simp
  qed
  show ?thesis
    unfolding auto using q thumb second lm(2) by simp
qed

text \<open>
  Claim C3, amended. For an unsupported quality \<open>autoLoad\<close> throws and changes
  nothing. For a supported quality it builds the sequence of the first web derivative of
  quality Thumb, if the list holds one, followed by the result of
  \<open>selectDerivative\<close>, if there is one. With an empty sequence it returns a
  rejected promise and changes nothing; otherwise it loads the sequence in order, each
  load resolved before the next begins, and a load that fails ends the sequence.
  Without a loading manager it issues no load and returns a rejected promise. When both
  derivatives are there and a loading manager is set, it issues the load of the
  thumbnail first and the second load exactly when the first has resolved; so the loads
  are exactly two, the thumbnail first, whenever the loader resolves the thumbnail with
  a bounding box and the thumbnail is not the active derivative already.
\<close>

theorem autoLoad_sequence_and_loads:
  "(q \<notin> set qualityLevels \<longrightarrow>
      autoLoad E s q = (Inl (Error ''derivative quality not supported''), s))
   \<and> (q \<in> set qualityLevels \<longrightarrow>
     autoLoad_sequence s q =
       Inr ((case find (matches (heap s) Thumb Web) (derivatives (this s)) of
               Some t \<Rightarrow> [t] | None \<Rightarrow> [])
            @ (case selectDerivative_spec s q Web of Some d \<Rightarrow> [d] | None \<Rightarrow> []))
     \<and> (\<forall>sequence. autoLoad_sequence s q = Inr sequence \<longrightarrow>
          (if sequence = [] then
             autoLoad E s q =
               (Inr (Rejected (Error ''no suitable web-derivatives available'')), s)
           else
             autoLoad E s q =
               (Inr (fst (loadInOrder E s sequence)), snd (loadInOrder E s sequence))))
     \<and> (\<forall>sequence. autoLoad_sequence s q = Inr sequence \<and> sequence \<noteq> []
          \<and> loadingManager (this s) = None \<longrightarrow>
          autoLoad E s q =
            (Inr (Rejected (Error ''can't load derivative, loading manager not set'')), s))
     \<and> (\<forall>t d lm.
          find (matches (heap s) Thumb Web) (derivatives (this s)) = Some t
          \<and> selectDerivative_spec s q Web = Some d
          \<and> loadingManager (this s) = Some lm \<longrightarrow>
          filter isLoad (drop (length (trace s)) (trace (snd (autoLoad E s q)))) =
            DerivativeLoad t lm (assetPath (this s)) #
            (if fst (loadDerivative E s t) = Inr Resolved
             then [DerivativeLoad d lm (assetPath (this s))] else []))
     \<and> (\<forall>t d lm t'.
          find (matches (heap s) Thumb Web) (derivatives (this s)) = Some t
          \<and> selectDerivative_spec s q Web = Some d
          \<and> loadingManager (this s) = Some lm
          \<and> Derivative_load E t (heap s t) lm (assetPath (this s)) = Inr t'
          \<and> dBoundingBox t' \<noteq> None
          \<and> activeDerivative (this s) \<noteq> Some t \<longrightarrow>
          filter isLoad (drop (length (trace s)) (trace (snd (autoLoad E s q)))) =
            [DerivativeLoad t lm (assetPath (this s)),
             DerivativeLoad d lm (assetPath (this s))]))"
proof (intro conjI impI allI)
  assume "q \<notin> set qualityLevels"
  then show "autoLoad E s q = (Inl (Error ''derivative quality not supported''), s)"
    by (rule autoLoad_unsupported)
next
  assume q: "q \<in> set qualityLevels"
  show "autoLoad_sequence s q =
       Inr ((case find (matches (heap s) Thumb Web) (derivatives (this s)) of
               Some t \<Rightarrow> [t] | None \<Rightarrow> [])
            @ (case selectDerivative_spec s q Web of Some d \<Rightarrow> [d] | None \<Rightarrow> []))"
    by (rule autoLoad_sequence_supported [OF q])
next
  fix sequence
  assume "autoLoad_sequence s q = Inr sequence"
  then show "if sequence = [] then
             autoLoad E s q =
               (Inr (Rejected (Error ''no suitable web-derivatives available'')), s)
           else
             autoLoad E s q =
               (Inr (fst (loadInOrder E s sequence)), snd (loadInOrder E s sequence))"
    by (simp add: autoLoad_empty autoLoad_loadInOrder)
next
  fix sequence
  assume "autoLoad_sequence s q = Inr sequence \<and> sequence \<noteq> []
          \<and> loadingManager (this s) = None"
  then show "autoLoad E s q =
            (Inr (Rejected (Error ''can't load derivative, loading manager not set'')), s)"
    by (simp add: autoLoad_loadInOrder loadInOrder_no_manager)
next
  fix t d lm
  assume q: "q \<in> set qualityLevels"
    and a: "find (matches (heap s) Thumb Web) (derivatives (this s)) = Some t
          \<and> selectDerivative_spec s q Web = Some d
          \<and> loadingManager (this s) = Some lm"
  have seq: "autoLoad_sequence s q = Inr [t, d]"
    using a by (simp add: autoLoad_sequence_supported [OF q])
  have "snd (autoLoad E s q) = snd (loadInOrder E s [t, d])"
    by (simp add: autoLoad_loadInOrder [OF seq])
  then show "filter isLoad (drop (length (trace s)) (trace (snd (autoLoad E s q)))) =
            DerivativeLoad t lm (assetPath (this s)) #
            (if fst (loadDerivative E s t) = Inr Resolved
             then [DerivativeLoad d lm (assetPath (this s))] else [])"
    using loads_of_pair [of s lm E t d] a by simp
next
  fix t d lm t'
  assume q: "q \<in> set qualityLevels"
    and a: "find (matches (heap s) Thumb Web) (derivatives (this s)) = Some t
          \<and> selectDerivative_spec s q Web = Some d
          \<and> loadingManager (this s) = Some lm
          \<and> Derivative_load E t (heap s t) lm (assetPath (this s)) = Inr t'
          \<and> dBoundingBox t' \<noteq> None
          \<and> activeDerivative (this s) \<noteq> Some t"
  have seq: "autoLoad_sequence s q = Inr [t, d]"
    using a by (simp add: autoLoad_sequence_supported [OF q])
  have first: "fst (loadDerivative E s t) = Inr Resolved"
    using a loadDerivative_resolves [of s lm E t t'] by simp
  have "snd (autoLoad E s q) = snd (loadInOrder E s [t, d])"
    by (simp add: autoLoad_loadInOrder [OF seq])
  then show "filter isLoad (drop (length (trace s)) (trace (snd (autoLoad E s q)))) =
            [DerivativeLoad t lm (assetPath (this s)),
             DerivativeLoad d lm (assetPath (this s))]"
    using two_loads [of s lm E t d] a first by simp
qed

theorem autoLoad_sequence_and_loads_witness:
  "High \<in> set qualityLevels
   \<and> autoLoad_sequence thumbHighState High = Inr [0, 1]
   \<and> loadingManager (this thumbHighState) = Some 0
   \<and> Derivative_load exampleEnv 0 (heap thumbHighState 0) 0 (assetPath (this thumbHighState)) =
       Inr ((heap thumbHighState 0)\<lparr>model := Some 7, dBoundingBox := Some unitBox\<rparr>)
   \<and> activeDerivative (this thumbHighState) \<noteq> Some 0
   \<and> filter isLoad (trace (snd (autoLoad exampleEnv thumbHighState High))) =
       [DerivativeLoad 0 0 [], DerivativeLoad 1 0 []]
   \<and> OtherQuality 0 \<notin> set qualityLevels
   \<and> autoLoad exampleEnv thumbHighState (OtherQuality 0) =
       (Inl (Error ''derivative quality not supported''), thumbHighState)"
proof -
  have q: "High \<in> set qualityLevels" "OtherQuality 0 \<notin> set qualityLevels"
    by (simp_all add: qualityLevels_def)
  have thumb: "find (matches (heap thumbHighState) Thumb Web) (derivatives (this thumbHighState))
      = Some 0"
    by (simp add: thumbHighState_def matches_def new_Derivative_def new_Model_def)
  have second: "selectDerivative_spec thumbHighState High Web = Some 1"
    by (simp add: selectDerivative_spec_def thumbHighState_def matches_def new_Derivative_def
        new_Model_def)
  have fields: "loadingManager (this thumbHighState) = Some 0"
    "assetPath (this thumbHighState) = []" "trace thumbHighState = []"
    "activeDerivative (this thumbHighState) \<noteq> Some 0"
    by (simp_all add: thumbHighState_def new_Model_def)
  have load: "Derivative_load exampleEnv 0 (heap thumbHighState 0) 0 [] =
       Inr ((heap thumbHighState 0)\<lparr>model := Some 7, dBoundingBox := Some unitBox\<rparr>)"
    by (simp add: exampleEnv_def)
  note supported =
    autoLoad_sequence_and_loads [of High exampleEnv thumbHighState, THEN conjunct2, rule_format,
      OF q(1)]
  have sequence: "autoLoad_sequence thumbHighState High = Inr [0, 1]"
    using supported [THEN conjunct1] by (simp add: thumb second)
  have loads: "filter isLoad (trace (snd (autoLoad exampleEnv thumbHighState High))) =
       [DerivativeLoad 0 0 [], DerivativeLoad 1 0 []]"
    using supported [THEN conjunct2, THEN conjunct2, THEN conjunct2, THEN conjunct2,
        rule_format, of 0 1 0 "(heap thumbHighState 0)\<lparr>model := Some 7, dBoundingBox := Some unitBox\<rparr>"]
      thumb second fields load
    by simp
  have unsupported: "autoLoad exampleEnv thumbHighState (OtherQuality 0) =
       (Inl (Error ''derivative quality not supported''), thumbHighState)"
    using autoLoad_sequence_and_loads [of "OtherQuality 0" exampleEnv thumbHighState,
        THEN conjunct1] q(2)
    by simp
  show ?thesis
    using q sequence loads unsupported fields load by simp
qed

section \<open>The bounding box is never absent\<close>

text \<open>
  The constructor gives the model a box, and no method takes it away: in every state
  that the methods reach from a new model, the guard \<^verbatim>\<open>!this.boundingBox\<close> of
  \<^verbatim>\<open>loadDerivative\<close> is false.
\<close>

lemma hasBox_new: "this s = new_Model \<Longrightarrow> hasBox s"
  by (simp add: hasBox_def new_Model_def)

lemma hasBox_simple:
  "hasBox s \<Longrightarrow> hasBox (addDerivative s d)"
  "hasBox s \<Longrightarrow> hasBox (removeDerivative s d)"
  "hasBox s \<Longrightarrow> hasBox (setLoadingManager s lm)"
  "hasBox s \<Longrightarrow> hasBox (setPath s p)"
  "hasBox s \<Longrightarrow> hasBox (dispose E s)"
  by (simp_all add: hasBox_def addDerivative_def removeDerivative_def setLoadingManager_def
      setPath_def dispose_def Let_def emit_def foldl_dispose_this)

lemma foldl_inflate_box:
  "boundingBox (this (foldl inflateDerivative s dds)) = boundingBox (this s)"
  by (induction dds arbitrary: s) (simp_all add: inflateDerivative_def addDerivative_def Let_def)

lemma hasBox_fromData: "hasBox s \<Longrightarrow> hasBox (snd (fromData E s modelData))"
  by (auto simp: hasBox_def fromData_def Let_def emit_def updatePropsFromMatrix_def
      foldl_inflate_box case_prod_beta split: option.splits)

lemma hasBox_loadDerivative: "hasBox s \<Longrightarrow> hasBox (snd (loadDerivative E s d))"
  using loadDerivative_keeps_boundingBox [of s _ E d] by (auto simp: hasBox_def)

lemma hasBox_loadInOrder: "hasBox s \<Longrightarrow> hasBox (snd (loadInOrder E s ds))"
proof (induction ds arbitrary: s)
  case Nil
  then show ?case by simp
next
  case (Cons d ds)
  obtain r s1 where l: "loadDerivative E s d = (r, s1)"
    by (cases "loadDerivative E s d")
  with Cons.prems hasBox_loadDerivative [of s E d] have "hasBox s1" by simp
  with l Cons.IH [of s1] show ?case
    by (auto split: sum.splits promise.splits)
qed

lemma hasBox_autoLoad: "hasBox s \<Longrightarrow> hasBox (snd (autoLoad E s q))"
proof (cases "autoLoad_sequence s q")
  case (Inl e)
  assume "hasBox s"
  with Inl show ?thesis by (simp add: autoLoad_def)
next
  case (Inr sequence)
  assume "hasBox s"
  with Inr show ?thesis
    by (cases "sequence = []")
      (simp_all add: autoLoad_empty autoLoad_loadInOrder hasBox_loadInOrder)
qed

section \<open>The document component\<close>

text \<open>
  Claim C2. For every document data that the validator rejects, \<open>openDocument\<close>
  raises the validation error and returns the component as it was: no node is disposed
  of, created or attached, and neither the asset path nor the name is set.
\<close>

theorem openDocument_invalid_changes_nothing:
  "\<not> validate E documentData \<Longrightarrow>
   openDocument E D documentData assetPath_arg mergeParent =
     (Inl (Error ''document schema validation failed''), D)"
  by (simp add: openDocument_def)

theorem openDocument_invalid_changes_nothing_witness:
  "\<not> validate exampleDocEnv new_document_data
   \<and> openDocument exampleDocEnv exampleDocument new_document_data (Some ''a/document.json'')
        MergeUndefined =
       (Inl (Error ''document schema validation failed''), exampleDocument)"
  using openDocument_invalid_changes_nothing
    [of exampleDocEnv new_document_data exampleDocument "Some ''a/document.json''" MergeUndefined]
  by (simp add: exampleDocEnv_def new_document_data_def)

text \<open>
  Claim C5. \<open>appendModel\<close> fails when the given parent does not belong to the inner
  graph of the document, and when \<open>isEmpty\<close> holds and no parent is given; in both
  cases the component is returned as it was (no node created, no child attached, no
  derivative registered). \<open>appendGeometry\<close> does the same.
\<close>

theorem appendModel_fails_unchanged:
  "(graph (nodeHeap D p) \<noteq> innerGraph D \<longrightarrow>
      appendModel E D assetPath_arg quality_arg (Some p) =
        (Inl (Error ''invalid parent node''), D)
      \<and> appendGeometry E D geoPath colorMap occlusionMap normalMap quality_arg (Some p) =
        (Inl (Error ''invalid parent node''), D))
   \<and> (isEmpty E D \<longrightarrow>
      appendModel E D assetPath_arg quality_arg None =
        (Inl (Error ''empty document, can't append model''), D)
      \<and> appendGeometry E D geoPath colorMap occlusionMap normalMap quality_arg None =
        (Inl (Error ''empty document, can't append geometry''), D))"
  by (simp add: appendModel_def appendGeometry_def)

theorem appendModel_fails_unchanged_witness:
  "graph (nodeHeap exampleDocument 5) \<noteq> innerGraph exampleDocument
   \<and> appendModel exampleDocEnv exampleDocument ''model.glb'' None (Some 5) =
       (Inl (Error ''invalid parent node''), exampleDocument)
   \<and> isEmpty exampleDocEnv emptyDocument
   \<and> appendModel exampleDocEnv emptyDocument ''model.glb'' None None =
       (Inl (Error ''empty document, can't append model''), emptyDocument)"
proof -
  have foreign: "graph (nodeHeap exampleDocument 5) \<noteq> innerGraph exampleDocument"
    by (simp add: exampleDocument_def foreignNode_def)
  have empty: "isEmpty exampleDocEnv emptyDocument"
    by (simp add: exampleDocEnv_def emptyDocument_def)
  show ?thesis
    using foreign empty
      appendModel_fails_unchanged [of exampleDocument 5 exampleDocEnv "''model.glb''" None]
      appendModel_fails_unchanged [of emptyDocument 5 exampleDocEnv "''model.glb''" None]
    by simp
qed

text \<open>
  Claim C7. \<open>deflateDocument\<close> fails when \<open>isEmpty\<close> holds. Otherwise, when the
  graph has its scene node and the export routine of the scene returns and leaves the
  asset block of the new document alone, \<open>deflateDocument\<close> returns that document
  with the scene index set, and its asset block holds the four fixed values.
\<close>

theorem deflateDocument_asset:
  "(isEmpty E D \<longrightarrow>
      deflateDocument E D components = Inl (Error ''empty document, can't serialize''))
   \<and> (\<not> isEmpty E D \<and> root D = Some r
       \<and> NVScene_toDocument E r D new_document_data Map.empty components =
           Inr (document', pathMap, sceneIndex)
       \<and> asset document' = asset new_document_data \<longrightarrow>
       deflateDocument E D components = Inr (document'\<lparr>scene := sceneIndex\<rparr>)
       \<and> asset (document'\<lparr>scene := sceneIndex\<rparr>) =
           \<lparr>asset_type = ''application/si-dpo-3d.document+json'', version = ''1.0'',
            generator = ''Voyager'',
            copyright = ''(c) Smithsonian Institution. All rights reserved.''\<rparr>)"
  by (simp add: deflateDocument_def new_document_data_def mimeType_def documentVersion_def)

theorem deflateDocument_asset_witness:
  "isEmpty exampleDocEnv emptyDocument
   \<and> deflateDocument exampleDocEnv emptyDocument None =
       Inl (Error ''empty document, can't serialize'')
   \<and> \<not> isEmpty exampleDocEnv exampleDocument
   \<and> deflateDocument exampleDocEnv exampleDocument None =
       Inr \<lparr>asset =
              \<lparr>asset_type = ''application/si-dpo-3d.document+json'', version = ''1.0'',
               generator = ''Voyager'',
               copyright = ''(c) Smithsonian Institution. All rights reserved.''\<rparr>,
            scene = 0, scenes = [\<lparr>nodes = []\<rparr>]\<rparr>"
proof -
  have empty: "isEmpty exampleDocEnv emptyDocument" "\<not> isEmpty exampleDocEnv exampleDocument"
    by (simp_all add: exampleDocEnv_def emptyDocument_def exampleDocument_def)
  have r: "root exampleDocument = Some 0"
    by (simp add: root_def exampleDocument_def sceneNode_def)
  have t: "NVScene_toDocument exampleDocEnv 0 exampleDocument new_document_data Map.empty None =
      Inr (new_document_data\<lparr>scenes := [\<lparr>nodes = []\<rparr>]\<rparr>, Map.empty, 0)"
    by (simp add: exampleDocEnv_def new_document_data_def)
  have a: "asset (new_document_data\<lparr>scenes := [\<lparr>nodes = []\<rparr>]\<rparr>) = asset new_document_data"
    by simp
  from deflateDocument_asset [of exampleDocEnv emptyDocument None] empty(1)
  have one: "deflateDocument exampleDocEnv emptyDocument None =
       Inl (Error ''empty document, can't serialize'')"
    by blast
  from deflateDocument_asset [of exampleDocEnv exampleDocument None 0
      "new_document_data\<lparr>scenes := [\<lparr>nodes = []\<rparr>]\<rparr>" Map.empty 0] empty(2) r t a
  have two: "deflateDocument exampleDocEnv exampleDocument None =
      Inr (new_document_data\<lparr>scenes := [\<lparr>nodes = []\<rparr>], scene := 0\<rparr>)"
    by blast
  show ?thesis
    using empty one two
    by (simp add: new_document_data_def mimeType_def documentVersion_def)
qed

end
